theory Spec2Isabelle
  imports Main "HOL-Library.Sublist" "HOL-Library.Multiset" "HOL-Library.Word"
begin

section \<open>IDFDUT: a serial device under test driven through esptool\<close>

text \<open>
  A shallow embedding of \<^verbatim>\<open>tools/tiny-test-fw/IDF/IDFDUT.py\<close>. Python strings are
  \<^typ>\<open>string\<close>, Python integers are \<^typ>\<open>int\<close>, bytes are 8-bit words.
  Every call that leaves the file (esptool, pyserial, the file system, the listener of
  \<^verbatim>\<open>DUT.SerialDUT\<close>) acts on an explicit \<open>world\<close>; what such a call answers in
  a given run is read from an \<open>env\<close> record, so that each raise of a collaborator is a
  branch of the model.
\<close>

subsection \<open>Strings\<close>

text \<open>\<^verbatim>\<open>sub in s\<close> on Python strings: \<open>sub\<close> occurs somewhere in \<open>s\<close>.\<close>

fun str_contains :: "string \<Rightarrow> string \<Rightarrow> bool" where
  "str_contains sub [] = (sub = [])"
| "str_contains sub (c # cs) = (prefix sub (c # cs) \<or> str_contains sub cs)"

text \<open>
  \<^verbatim>\<open>s.replace(old, new)\<close> for a non-empty \<open>old\<close>: every non-overlapping occurrence,
  leftmost first. The source only calls it with \<^verbatim>\<open>'tty.'\<close>; the empty pattern (which
  Python treats specially) is not modelled and leaves the string as it is.
\<close>

function str_replace :: "string \<Rightarrow> string \<Rightarrow> string \<Rightarrow> string" where
  "str_replace old new [] = []"
| "str_replace old new (c # cs) =
     (if old \<noteq> [] \<and> prefix old (c # cs)
      then new @ str_replace old new (drop (length old) (c # cs))
      else c # str_replace old new cs)"
  by pat_completeness auto
termination
  by (relation "measure (\<lambda>(old, new, s). length s)") auto

subsection \<open>Port resolver\<close>

text \<open>
  \<^verbatim>\<open>INVALID_PORT_PATTERN = re.compile(r"AMA|Bluetooth")\<close>, used through
  \<^verbatim>\<open>.search(x)\<close>: an alternation of two literals, found anywhere in \<open>x\<close>.
\<close>

definition INVALID_PORT_PATTERN_search :: "string \<Rightarrow> bool" where
  "INVALID_PORT_PATTERN_search x = (str_contains ''AMA'' x \<or> str_contains ''Bluetooth'' x)"

text \<open>
  \<^verbatim>\<open>list_available_ports\<close>. Its three reads of the process are arguments:
  \<open>ports\<close> is \<^verbatim>\<open>[x.device for x in list_ports.comports()]\<close>, \<open>espport\<close> is
  \<^verbatim>\<open>os.getenv('ESPPORT')\<close> (absent is \<open>None\<close>) and \<open>platform\<close> is
  \<^verbatim>\<open>sys.platform\<close>. \<^verbatim>\<open>not espport\<close> holds for an absent and for an empty variable.
  The hint is text already (the \<^verbatim>\<open>decode('utf8')\<close> branch is the Python 2 byte string
  case and gives the same characters for ASCII names).
  \<^verbatim>\<open>ports.remove(port_hint)\<close> removes the first occurrence.
\<close>

definition list_available_ports :: "string list \<Rightarrow> string option \<Rightarrow> string \<Rightarrow> string list" where
  "list_available_ports ports espport platform =
     (case espport of
        None \<Rightarrow> filter (\<lambda>x. \<not> INVALID_PORT_PATTERN_search x) ports
      | Some port_hint \<Rightarrow>
          if port_hint = [] then filter (\<lambda>x. \<not> INVALID_PORT_PATTERN_search x) ports
          else if port_hint \<in> set ports then port_hint # remove1 port_hint ports
          else if platform = ''darwin'' \<and> str_contains ''tty.'' port_hint then
            (let port_hint' = str_replace ''tty.'' ''cu.'' port_hint
             in if port_hint' \<in> set ports then port_hint' # remove1 port_hint' ports
                else ports)
          else ports)"

subsection \<open>Exceptions\<close>

text \<open>
  The exception classes the file raises, catches or lets through. \<^verbatim>\<open>FatalError\<close> is
  esptool's error class and \<^verbatim>\<open>NotImplementedError\<close> a builtin; both derive from
  \<^verbatim>\<open>RuntimeError\<close>. \<^verbatim>\<open>IDFToolError\<close> is the file's own class and derives from
  \<^verbatim>\<open>OSError\<close> (as do \<^verbatim>\<open>IOError\<close> and pyserial's \<^verbatim>\<open>SerialException\<close>, modelled
  as \<open>OSError\<close>). Messages are left out.
\<close>

datatype exn =
    RuntimeError | FatalError | NotImplementedError
  | IDFToolError | OSError
  | KeyError | ValueError | UnboundLocalError

text \<open>\<^verbatim>\<open>except RuntimeError\<close> catches the class and its subclasses.\<close>

fun isinstance_RuntimeError :: "exn \<Rightarrow> bool" where
  "isinstance_RuntimeError RuntimeError = True"
| "isinstance_RuntimeError FatalError = True"
| "isinstance_RuntimeError NotImplementedError = True"
| "isinstance_RuntimeError _ = False"

subsection \<open>The world outside the file\<close>

type_synonym byte = "8 word"

text \<open>
  A file object: where it came from (\<open>None\<close> for a temporary file), its bytes, the
  read/write position, and how often \<^verbatim>\<open>close()\<close> was called on it. A handle is the
  index of the object in \<open>files\<close>.
\<close>

record pyfile =
  origin :: "string option"
  content :: "byte list"
  position :: nat
  closes :: nat

text \<open>A value passed through \<^verbatim>\<open>**kwargs\<close>: a string or an integer.\<close>

datatype pyval = PStr string | PInt int

text \<open>The \<^verbatim>\<open>write_flash_args\<close> named tuple handed to \<^verbatim>\<open>esptool.write_flash\<close>.\<close>

record write_flash_args =
  flash_size :: string
  flash_mode :: string
  flash_freq :: string
  addr_filename :: "(int \<times> nat) list"
  no_stub :: bool
  compress :: bool
  verify :: bool
  encrypt :: bool

text \<open>
  The calls made on esptool, in the order they happen. \<open>ESP32ROM_init\<close> is
  \<^verbatim>\<open>esptool.ESP32ROM(self.port_inst)\<close> on the device's own serial instance;
  \<open>ESP32ROM_open p\<close> is \<^verbatim>\<open>esptool.ESP32ROM(port)\<close> on a port name, which opens the
  port. \<open>Connect\<close> carries the reset mode when the call gives one.
\<close>

datatype event =
    ESP32ROM_init
  | ESP32ROM_open string
  | Connect "string option"
  | RunStub
  | ChangeBaud nat
  | WriteFlash write_flash_args
  | HardReset
  | ReadFlash pyval pyval
  | ReadMac
  | PortClose string

text \<open>
  The mutable world: whether the listener thread of the device is running, the line
  settings of its serial instance (the baud rate stands for the whole settings
  dictionary), the esptool calls so far, every file object created so far, the files
  written through \<^verbatim>\<open>open(..., "wb")\<close>, and the ports opened by name and not yet closed.
\<close>

record world =
  receiving :: bool
  port_settings :: nat
  trace :: "event list"
  files :: "pyfile list"
  written :: "(string \<times> byte list) list"
  open_ports :: "string list"

text \<open>
  What the collaborators answer in one run. \<open>None\<close> (or \<open>Inr\<close>) is a normal return,
  \<open>Some e\<close> (or \<open>Inl e\<close>) the exception raised. \<open>fs\<close> holds the files that
  \<^verbatim>\<open>open(path, "rb")\<close> can open, \<open>cwd\<close> is \<^verbatim>\<open>os.getcwd()\<close>, \<open>int_base0\<close> is the
  builtin \<^verbatim>\<open>int(s, 0)\<close>. The answers of \<^verbatim>\<open>change_baud\<close> and \<^verbatim>\<open>write_flash\<close> depend on
  the baud rate of the attempt.
\<close>

record env =
  cwd :: string
  fs :: "string \<rightharpoonup> byte list"
  int_base0 :: "string \<Rightarrow> exn + int"
  tempfile_out :: "exn option"
  open_wb_out :: "string \<Rightarrow> exn option"
  rom_init_out :: "exn option"
  connect_out :: "exn option"
  run_stub_out :: "exn option"
  change_baud_out :: "nat \<Rightarrow> exn option"
  write_flash_out :: "nat \<Rightarrow> exn option"
  hard_reset_out :: "exn option"
  read_flash_out :: "pyval \<Rightarrow> pyval \<Rightarrow> exn + byte list"
  probe_open_out :: "string \<Rightarrow> exn option"
  probe_connect_out :: "string \<Rightarrow> exn option"
  read_mac_out :: "string \<Rightarrow> exn + byte list"

text \<open>
  The application descriptor (\<^verbatim>\<open>self.app\<close>), read only. A partition's offset is a
  string such as \<^verbatim>\<open>"0x9000"\<close> (the source converts it with \<^verbatim>\<open>int(address, 0)\<close>), its
  size an integer (the source multiplies a byte string by it).
\<close>

record partition =
  p_offset :: string
  p_size :: int

record app =
  flash_files :: "(int \<times> string) list"
  partition_table :: "string \<rightharpoonup> partition"
  flash_settings :: "string \<rightharpoonup> string"
  log_folder :: string

subsection \<open>Statements that may raise\<close>

text \<open>
  A statement maps the world to a result and the world it leaves behind; the world is
  kept when the statement raises, since what was done before the raise stays done.
\<close>

type_synonym 'a action = "world \<Rightarrow> (exn + 'a) \<times> world"

definition py_return :: "'a \<Rightarrow> 'a action" where
  "py_return a = (\<lambda>w. (Inr a, w))"

definition py_raise :: "exn \<Rightarrow> 'a action" where
  "py_raise e = (\<lambda>w. (Inl e, w))"

definition py_bind :: "'a action \<Rightarrow> ('a \<Rightarrow> 'b action) \<Rightarrow> 'b action" where
  "py_bind m f = (\<lambda>w. case m w of (Inl e, w1) \<Rightarrow> (Inl e, w1) | (Inr a, w1) \<Rightarrow> f a w1)"

text \<open>A pure computation that may raise.\<close>

definition py_lift :: "exn + 'a \<Rightarrow> 'a action" where
  "py_lift r = (\<lambda>w. (r, w))"

text \<open>
  \<^verbatim>\<open>try: body finally: fin\<close>: \<open>fin\<close> runs whatever \<open>body\<close> did; an exception of
  \<open>fin\<close> replaces the outcome of \<open>body\<close>.
\<close>

definition try_finally :: "'a action \<Rightarrow> unit action \<Rightarrow> 'a action" where
  "try_finally body fin =
     (\<lambda>w. case body w of (r, w1) \<Rightarrow>
        (case fin w1 of (Inl e, w2) \<Rightarrow> (Inl e, w2) | (Inr _, w2) \<Rightarrow> (r, w2)))"

text \<open>\<^verbatim>\<open>try: body except RuntimeError: handler\<close>.\<close>

definition try_except_RuntimeError :: "'a action \<Rightarrow> 'a action \<Rightarrow> 'a action" where
  "try_except_RuntimeError body handler =
     (\<lambda>w. case body w of
        (Inl e, w1) \<Rightarrow> if isinstance_RuntimeError e then handler w1 else (Inl e, w1)
      | (Inr a, w1) \<Rightarrow> (Inr a, w1))"

text \<open>A call on esptool: it is recorded, then answers as the run says.\<close>

definition esp_call :: "event \<Rightarrow> exn + 'a \<Rightarrow> 'a action" where
  "esp_call ev out = (\<lambda>w. (out, w\<lparr>trace := trace w @ [ev]\<rparr>))"

definition unit_out :: "exn option \<Rightarrow> exn + unit" where
  "unit_out out = (case out of None \<Rightarrow> Inr () | Some e \<Rightarrow> Inl e)"

subsection \<open>The listener and the serial instance\<close>

text \<open>
  Modelled from the spec: \<^verbatim>\<open>stop_receive\<close> and \<^verbatim>\<open>start_receive\<close> belong to
  \<^verbatim>\<open>DUT.SerialDUT\<close>, which is not part of this file; the spec has them stop and restart
  the background listener.
\<close>

definition stop_receive :: "unit action" where
  "stop_receive = (\<lambda>w. (Inr (), w\<lparr>receiving := False\<rparr>))"

definition start_receive :: "unit action" where
  "start_receive = (\<lambda>w. (Inr (), w\<lparr>receiving := True\<rparr>))"

text \<open>pyserial's \<^verbatim>\<open>get_settings\<close> and \<^verbatim>\<open>apply_settings\<close> on \<^verbatim>\<open>self.port_inst\<close>.\<close>

definition get_settings :: "nat action" where
  "get_settings = (\<lambda>w. (Inr (port_settings w), w))"

definition apply_settings :: "nat \<Rightarrow> unit action" where
  "apply_settings settings = (\<lambda>w. (Inr (), w\<lparr>port_settings := settings\<rparr>))"

subsection \<open>The session wrapper\<close>

text \<open>
  \<^verbatim>\<open>_uses_esptool(func)\<close> returns \<^verbatim>\<open>handler\<close>. The statements of \<^verbatim>\<open>handler\<close> follow
  each other with no \<^verbatim>\<open>try\<close>: a raise of any of them ends the handler there. The
  \<^verbatim>\<open>esp\<close> argument of \<open>func\<close> is the stub session, whose calls are the esptool calls of
  the world.
\<close>

definition uses_esptool :: "env \<Rightarrow> 'a action \<Rightarrow> 'a action" where
  "uses_esptool env func =
     py_bind stop_receive (\<lambda>_.
     py_bind get_settings (\<lambda>settings.
     py_bind (esp_call ESP32ROM_init (unit_out (rom_init_out env))) (\<lambda>_.
     py_bind (esp_call (Connect (Some ''hard_reset'')) (unit_out (connect_out env))) (\<lambda>_.
     py_bind (esp_call RunStub (unit_out (run_stub_out env))) (\<lambda>_.
     py_bind func (\<lambda>ret.
     py_bind (apply_settings settings) (\<lambda>_.
     py_bind start_receive (\<lambda>_.
     py_return ret))))))))"

subsection \<open>Identity probe\<close>

text \<open>
  \<^verbatim>\<open>get_mac(cls, app, port)\<close>; the body never reads \<^verbatim>\<open>cls\<close> or \<^verbatim>\<open>app\<close>.
  \<^verbatim>\<open>esptool.ESP32ROM(port)\<close> stands inside the \<^verbatim>\<open>try\<close>:
  when it raises, \<^verbatim>\<open>esp\<close> was never bound, and the \<^verbatim>\<open>finally\<close> clause
  \<^verbatim>\<open>esp._port.close()\<close> raises \<^verbatim>\<open>UnboundLocalError\<close>, which replaces whatever the
  \<^verbatim>\<open>try\<close> and the \<^verbatim>\<open>except\<close> clause had decided. Closing a port does not raise.
\<close>

definition port_open :: "env \<Rightarrow> string \<Rightarrow> unit action" where
  "port_open env port =
     (\<lambda>w. case probe_open_out env port of
        Some e \<Rightarrow> (Inl e, w\<lparr>trace := trace w @ [ESP32ROM_open port]\<rparr>)
      | None \<Rightarrow> (Inr (), w\<lparr>trace := trace w @ [ESP32ROM_open port],
                           open_ports := port # open_ports w\<rparr>))"

definition port_close :: "string \<Rightarrow> unit action" where
  "port_close port =
     (\<lambda>w. (Inr (), w\<lparr>trace := trace w @ [PortClose port],
                     open_ports := remove1 port (open_ports w)\<rparr>))"

definition get_mac :: "env \<Rightarrow> string \<Rightarrow> (byte list option) action" where
  "get_mac env port =
     (\<lambda>w. case port_open env port w of
        (Inl e, w1) \<Rightarrow> (Inl UnboundLocalError, w1)
      | (Inr _, w1) \<Rightarrow>
          try_finally
            (try_except_RuntimeError
               (py_bind (esp_call (Connect None) (unit_out (probe_connect_out env port))) (\<lambda>_.
                py_bind (esp_call ReadMac (read_mac_out env port)) (\<lambda>mac.
                py_return (Some mac))))
               (py_return None))
            (port_close port) w1)"

definition confirm_dut :: "env \<Rightarrow> string \<Rightarrow> bool action" where
  "confirm_dut env port = py_bind (get_mac env port) (\<lambda>mac. py_return (mac \<noteq> None))"

subsection \<open>Reset and partition erase\<close>

definition reset_func :: "env \<Rightarrow> unit action" where
  "reset_func env = esp_call HardReset (unit_out (hard_reset_out env))"

definition reset :: "env \<Rightarrow> unit action" where
  "reset env = uses_esptool env (reset_func env)"

text \<open>\<^verbatim>\<open>erase_partition\<close> raises before anything else; the rest of its body is dead.\<close>

definition erase_partition_func :: "env \<Rightarrow> app \<Rightarrow> string \<Rightarrow> unit action" where
  "erase_partition_func env a pname = py_raise NotImplementedError"

definition erase_partition :: "env \<Rightarrow> app \<Rightarrow> string \<Rightarrow> unit action" where
  "erase_partition env a pname = uses_esptool env (erase_partition_func env a pname)"

subsection \<open>Paths\<close>

text \<open>
  The functions of \<^verbatim>\<open>os.path\<close> the file calls, as \<^verbatim>\<open>posixpath\<close> defines them (the
  test framework runs on Linux and macOS). \<open>split_sep\<close> is \<^verbatim>\<open>s.split('/')\<close> and \<open>sep_join\<close> is
  \<^verbatim>\<open>'/'.join(l)\<close>.
\<close>

definition os_path_isabs :: "string \<Rightarrow> bool" where
  "os_path_isabs s = prefix ''/'' s"

fun split_sep :: "string \<Rightarrow> string list" where
  "split_sep [] = [[]]"
| "split_sep (c # cs) =
     (if c = CHR ''/'' then [] # split_sep cs
      else (case split_sep cs of [] \<Rightarrow> [[c]] | x # xs \<Rightarrow> (c # x) # xs))"

fun sep_join :: "string list \<Rightarrow> string" where
  "sep_join [] = []"
| "sep_join [x] = x"
| "sep_join (x # y # ys) = x @ ''/'' @ sep_join (y # ys)"

text \<open>One round of the loop of \<^verbatim>\<open>join(a, *p)\<close>, and the loop.\<close>

definition join_step :: "string \<Rightarrow> string \<Rightarrow> string" where
  "join_step path b =
     (if prefix ''/'' b then b
      else if path = [] \<or> last path = CHR ''/'' then path @ b
      else path @ ''/'' @ b)"

definition os_path_join :: "string \<Rightarrow> string list \<Rightarrow> string" where
  "os_path_join a p = foldl join_step a p"

text \<open>One round of the loop of \<^verbatim>\<open>normpath\<close> over the components, and \<^verbatim>\<open>normpath\<close>.\<close>

definition normpath_step :: "nat \<Rightarrow> string list \<Rightarrow> string \<Rightarrow> string list" where
  "normpath_step initial_slashes new_comps cmp =
     (if cmp = [] \<or> cmp = ''.'' then new_comps
      else if cmp \<noteq> ''..'' \<or> (initial_slashes = 0 \<and> new_comps = [])
                \<or> (new_comps \<noteq> [] \<and> last new_comps = ''..'')
      then new_comps @ [cmp]
      else if new_comps \<noteq> [] then butlast new_comps
      else new_comps)"

definition os_path_normpath :: "string \<Rightarrow> string" where
  "os_path_normpath path =
     (if path = [] then ''.''
      else
        let initial_slashes =
              (if prefix ''/'' path
               then (if prefix ''//'' path \<and> \<not> prefix ''///'' path then 2 else 1)
               else (0::nat));
            comps = foldl (normpath_step initial_slashes) [] (split_sep path);
            path' = replicate initial_slashes (CHR ''/'') @ sep_join comps
        in if path' = [] then ''.'' else path')"

definition os_path_abspath :: "string \<Rightarrow> string \<Rightarrow> string" where
  "os_path_abspath cwd_now path =
     os_path_normpath (if \<not> os_path_isabs path then os_path_join cwd_now [path] else path)"

fun commonprefix :: "'a list \<Rightarrow> 'a list \<Rightarrow> 'a list" where
  "commonprefix (x # xs) (y # ys) = (if x = y then x # commonprefix xs ys else [])"
| "commonprefix _ _ = []"

definition os_path_relpath :: "string \<Rightarrow> string \<Rightarrow> string \<Rightarrow> exn + string" where
  "os_path_relpath cwd_now path start =
     (if path = [] then Inl ValueError
      else
        let start_list = filter (\<lambda>x. x \<noteq> []) (split_sep (os_path_abspath cwd_now start));
            path_list = filter (\<lambda>x. x \<noteq> []) (split_sep (os_path_abspath cwd_now path));
            i = length (commonprefix start_list path_list);
            rel_list = replicate (length start_list - i) ''..'' @ drop i path_list
        in case rel_list of [] \<Rightarrow> Inr ''.'' | r # rs \<Rightarrow> Inr (os_path_join r rs))"

subsection \<open>Files\<close>

definition new_file :: "string option \<Rightarrow> byte list \<Rightarrow> nat action" where
  "new_file org bs =
     (\<lambda>w. (Inr (length (files w)),
           w\<lparr>files := files w @ [\<lparr>origin = org, content = bs, position = 0, closes = 0\<rparr>]\<rparr>))"

text \<open>\<^verbatim>\<open>open(path, "rb")\<close> raises \<^verbatim>\<open>IOError\<close> when the file cannot be opened.\<close>

definition open_rb :: "env \<Rightarrow> string \<Rightarrow> nat action" where
  "open_rb env path =
     (case fs env path of None \<Rightarrow> py_raise OSError | Some bs \<Rightarrow> new_file (Some path) bs)"

definition TemporaryFile :: "env \<Rightarrow> nat action" where
  "TemporaryFile env =
     (case tempfile_out env of Some e \<Rightarrow> py_raise e | None \<Rightarrow> new_file None [])"

definition update_file :: "nat \<Rightarrow> (pyfile \<Rightarrow> pyfile) \<Rightarrow> unit action" where
  "update_file f g = (\<lambda>w. (Inr (), w\<lparr>files := (files w)[f := g (files w ! f)]\<rparr>))"

definition file_write :: "nat \<Rightarrow> byte list \<Rightarrow> unit action" where
  "file_write f bs =
     update_file f (\<lambda>x. x\<lparr>content := take (position x) (content x) @ bs
                                       @ drop (position x + length bs) (content x),
                          position := position x + length bs\<rparr>)"

definition file_seek :: "nat \<Rightarrow> nat \<Rightarrow> unit action" where
  "file_seek f n = update_file f (\<lambda>x. x\<lparr>position := n\<rparr>)"

definition file_close :: "nat \<Rightarrow> unit action" where
  "file_close f = update_file f (\<lambda>x. x\<lparr>closes := Suc (closes x)\<rparr>)"

text \<open>\<^verbatim>\<open>with open(output_file, "wb") as f: f.write(content)\<close>.\<close>

definition open_wb_write :: "env \<Rightarrow> string \<Rightarrow> byte list \<Rightarrow> unit action" where
  "open_wb_write env path bs =
     (\<lambda>w. case open_wb_out env path of
        Some e \<Rightarrow> (Inl e, w)
      | None \<Rightarrow> (Inr (), w\<lparr>written := written w @ [(path, bs)]\<rparr>))"

subsection \<open>Flashing\<close>

definition ERASE_NVS :: bool where
  "ERASE_NVS = True"

text \<open>Line 114: the list comprehension opens the image files in order.\<close>

fun open_flash_files :: "env \<Rightarrow> (int \<times> string) list \<Rightarrow> ((int \<times> nat) list) action" where
  "open_flash_files env [] = py_return []"
| "open_flash_files env ((offs, path) # rest) =
     py_bind (open_rb env path) (\<lambda>f.
     py_bind (open_flash_files env rest) (\<lambda>opened.
     py_return ((offs, f) # opened)))"

text \<open>
  Lines 117 to 122, the body of \<^verbatim>\<open>if erase_nvs\<close>. \<^verbatim>\<open>b'\xff' * size\<close> is empty for a
  negative size. \<^verbatim>\<open>int(address, 0)\<close> is evaluated last, when the temporary file exists
  already.
\<close>

definition append_nvs :: "env \<Rightarrow> app \<Rightarrow> (int \<times> nat) list \<Rightarrow> ((int \<times> nat) list) action" where
  "append_nvs env a opened =
     (case partition_table a ''nvs'' of
        None \<Rightarrow> py_raise KeyError
      | Some nvs \<Rightarrow>
          (let address = p_offset nvs; sz = p_size nvs in
           py_bind (TemporaryFile env) (\<lambda>nvs_file.
           py_bind (file_write nvs_file (replicate (nat sz) (0xFF :: byte))) (\<lambda>_.
           py_bind (file_seek nvs_file 0) (\<lambda>_.
           py_bind (py_lift (int_base0 env address)) (\<lambda>addr.
           py_return (opened @ [(addr, nvs_file)])))))))"

text \<open>Lines 114 to 122: the list \<^verbatim>\<open>flash_files\<close> as it stands before the transfer.\<close>

definition build_flash_files :: "env \<Rightarrow> app \<Rightarrow> bool \<Rightarrow> ((int \<times> nat) list) action" where
  "build_flash_files env a erase_nvs =
     py_bind (open_flash_files env (flash_files a)) (\<lambda>opened.
     if erase_nvs then append_nvs env a opened else py_return opened)"

definition lookup_setting :: "app \<Rightarrow> string \<Rightarrow> string action" where
  "lookup_setting a k =
     (case flash_settings a k of None \<Rightarrow> py_raise KeyError | Some v \<Rightarrow> py_return v)"

definition make_flash_args :: "app \<Rightarrow> (int \<times> nat) list \<Rightarrow> write_flash_args action" where
  "make_flash_args a plan =
     py_bind (lookup_setting a ''flash_size'') (\<lambda>fsize.
     py_bind (lookup_setting a ''flash_mode'') (\<lambda>fmode.
     py_bind (lookup_setting a ''flash_freq'') (\<lambda>ffreq.
     py_return \<lparr>flash_size = fsize, flash_mode = fmode, flash_freq = ffreq,
                addr_filename = plan, no_stub = False, compress = True,
                verify = False, encrypt = False\<rparr>)))"

text \<open>
  \<^verbatim>\<open>esp.change_baud(baud_rate)\<close> switches the serial instance to the new rate when it
  succeeds. \<^verbatim>\<open>esptool.write_flash\<close> is recorded with its arguments; what it reads from
  the sources is not tracked.
\<close>

definition change_baud :: "env \<Rightarrow> nat \<Rightarrow> unit action" where
  "change_baud env baud_rate =
     (\<lambda>w. case change_baud_out env baud_rate of
        Some e \<Rightarrow> (Inl e, w\<lparr>trace := trace w @ [ChangeBaud baud_rate]\<rparr>)
      | None \<Rightarrow> (Inr (), w\<lparr>trace := trace w @ [ChangeBaud baud_rate],
                           port_settings := baud_rate\<rparr>))"

definition write_flash :: "env \<Rightarrow> nat \<Rightarrow> write_flash_args \<Rightarrow> unit action" where
  "write_flash env baud_rate flash_args =
     esp_call (WriteFlash flash_args) (unit_out (write_flash_out env baud_rate))"

text \<open>
  The \<^verbatim>\<open>for ... else\<close> loop of lines 148 to 156 over the rest of the rate list:
  \<^verbatim>\<open>break\<close> leaves the loop, \<^verbatim>\<open>continue\<close> goes to the next rate, and the \<^verbatim>\<open>else\<close>
  clause runs when the list is used up.
\<close>

fun try_baud_rates :: "env \<Rightarrow> write_flash_args \<Rightarrow> nat list \<Rightarrow> unit action" where
  "try_baud_rates env flash_args [] = py_raise IDFToolError"
| "try_baud_rates env flash_args (baud_rate # rest) =
     try_except_RuntimeError
       (py_bind (change_baud env baud_rate) (\<lambda>_. write_flash env baud_rate flash_args))
       (try_baud_rates env flash_args rest)"

text \<open>Lines 158 and 159.\<close>

fun close_files :: "(int \<times> nat) list \<Rightarrow> unit action" where
  "close_files [] = py_return ()"
| "close_files ((offs, f) # rest) = py_bind (file_close f) (\<lambda>_. close_files rest)"

text \<open>Lines 147 to 159: the transfer with its retry, and the closing of the sources.\<close>

definition flash_and_close :: "env \<Rightarrow> write_flash_args \<Rightarrow> unit action" where
  "flash_and_close env flash_args =
     try_finally (try_baud_rates env flash_args [921600, 115200])
                 (close_files (addr_filename flash_args))"

definition start_app_func :: "env \<Rightarrow> app \<Rightarrow> bool \<Rightarrow> unit action" where
  "start_app_func env a erase_nvs =
     py_bind (build_flash_files env a erase_nvs) (\<lambda>plan.
     py_bind (make_flash_args a plan) (\<lambda>flash_args.
     flash_and_close env flash_args))"

definition start_app :: "env \<Rightarrow> app \<Rightarrow> bool \<Rightarrow> unit action" where
  "start_app env a erase_nvs = uses_esptool env (start_app_func env a erase_nvs)"

subsection \<open>Flash dump\<close>

text \<open>\<^verbatim>\<open>self.app.partition_table[key]\<close>: the table's keys are partition names.\<close>

definition lookup_partition :: "app \<Rightarrow> pyval \<Rightarrow> partition action" where
  "lookup_partition a key =
     (case key of
        PStr name \<Rightarrow>
          (case partition_table a name of None \<Rightarrow> py_raise KeyError | Some p \<Rightarrow> py_return p)
      | PInt _ \<Rightarrow> py_raise KeyError)"

text \<open>
  \<^verbatim>\<open>dump_flush(self, esp, output_file, **kwargs)\<close>. The partition's offset goes to
  \<^verbatim>\<open>read_flash\<close> as the string the table holds.
\<close>

definition dump_flush_func :: "env \<Rightarrow> app \<Rightarrow> string \<Rightarrow> (string \<rightharpoonup> pyval) \<Rightarrow> unit action" where
  "dump_flush_func env a output_file kwargs =
     py_bind (if \<not> os_path_isabs output_file
              then py_lift (os_path_relpath (cwd env) output_file (log_folder a))
              else py_return output_file) (\<lambda>output_file'.
     py_bind (case kwargs ''partition'' of
                Some key \<Rightarrow>
                  py_bind (lookup_partition a key) (\<lambda>part.
                  py_return (PStr (p_offset part), PInt (p_size part)))
              | None \<Rightarrow>
                  (case (kwargs ''address'', kwargs ''size'') of
                     (Some address, Some sz) \<Rightarrow> py_return (address, sz)
                   | _ \<Rightarrow> py_raise IDFToolError)) (\<lambda>(address, sz).
     py_bind (esp_call (ReadFlash address sz) (read_flash_out env address sz)) (\<lambda>content.
     open_wb_write env output_file' content)))"

definition dump_flush :: "env \<Rightarrow> app \<Rightarrow> string \<Rightarrow> (string \<rightharpoonup> pyval) \<Rightarrow> unit action" where
  "dump_flush env a output_file kwargs = uses_esptool env (dump_flush_func env a output_file kwargs)"

subsection \<open>Observing a run\<close>

text \<open>
  What one speed attempt (\<^verbatim>\<open>change_baud\<close>, then \<^verbatim>\<open>write_flash\<close>) answers at a given
  rate, the rates asked for in a trace, and the files after \<^verbatim>\<open>close()\<close> was called on
  each source of a plan.
\<close>

definition attempt_out :: "env \<Rightarrow> nat \<Rightarrow> exn option" where
  "attempt_out env baud_rate =
     (case change_baud_out env baud_rate of Some e \<Rightarrow> Some e | None \<Rightarrow> write_flash_out env baud_rate)"

fun baud_attempts :: "event list \<Rightarrow> nat list" where
  "baud_attempts [] = []"
| "baud_attempts (ChangeBaud b # es) = b # baud_attempts es"
| "baud_attempts (_ # es) = baud_attempts es"

fun closed_by :: "(int \<times> nat) list \<Rightarrow> pyfile list \<Rightarrow> pyfile list" where
  "closed_by [] fl = fl"
| "closed_by ((offs, f) # rest) fl =
     closed_by rest (fl[f := (fl ! f)\<lparr>closes := Suc (closes (fl ! f))\<rparr>])"

subsection \<open>A concrete run\<close>

text \<open>
  A device whose collaborators all answer normally, an application with one image and a
  four-byte \<^verbatim>\<open>nvs\<close> partition at \<^verbatim>\<open>0x9000\<close>, and a world with the listener running at
  115200 baud.
\<close>

definition env0 :: env where
  "env0 = \<lparr>cwd = ''/home/u'', fs = [''app.bin'' \<mapsto> [1, 2, 3]],
     int_base0 = (\<lambda>s. if s = ''0x9000'' then Inr 36864 else Inl ValueError),
     tempfile_out = None, open_wb_out = (\<lambda>_. None), rom_init_out = None, connect_out = None,
     run_stub_out = None, change_baud_out = (\<lambda>_. None), write_flash_out = (\<lambda>_. None),
     hard_reset_out = None, read_flash_out = (\<lambda>_ _. Inr [7, 8]), probe_open_out = (\<lambda>_. None),
     probe_connect_out = (\<lambda>_. None), read_mac_out = (\<lambda>_. Inr [1, 2, 3, 4, 5, 6])\<rparr>"

definition w0 :: world where
  "w0 = \<lparr>receiving = True, port_settings = 115200, trace = [], files = [], written = [],
     open_ports = []\<rparr>"

definition app0 :: app where
  "app0 = \<lparr>flash_files = [(4096, ''app.bin'')],
     partition_table = [''nvs'' \<mapsto> \<lparr>p_offset = ''0x9000'', p_size = 4\<rparr>],
     flash_settings = [''flash_size'' \<mapsto> ''4MB'', ''flash_mode'' \<mapsto> ''dio'',
                       ''flash_freq'' \<mapsto> ''40m''],
     log_folder = ''/logs''\<rparr>"

text \<open>
  Variations: the first transfer fails with esptool's error, no change of speed is
  accepted, every transfer fails with an I/O error, the probed device does not answer, a call that gives a partition together
  with an address and a size, and an application whose second image file is missing.
\<close>

definition env_retry :: env where
  "env_retry = env0\<lparr>write_flash_out := (\<lambda>b. if b = 921600 then Some FatalError else None)\<rparr>"

definition env_no_speed :: env where
  "env_no_speed = env0\<lparr>change_baud_out := (\<lambda>b. Some FatalError)\<rparr>"

definition env_io_error :: env where
  "env_io_error = env0\<lparr>write_flash_out := (\<lambda>b. Some OSError)\<rparr>"




definition args0 :: write_flash_args where
  "args0 = \<lparr>flash_size = ''4MB'', flash_mode = ''dio'', flash_freq = ''40m'', addr_filename = [],
     no_stub = False, compress = True, verify = False, encrypt = False\<rparr>"

definition kwargs_both :: "string \<rightharpoonup> pyval" where
  "kwargs_both = [''partition'' \<mapsto> PStr ''nvs'', ''address'' \<mapsto> PInt 4096, ''size'' \<mapsto> PInt 16]"


section \<open>Properties\<close>

subsection \<open>Evaluating statements\<close>

lemma py_return_apply [simp]: "py_return a w = (Inr a, w)"
  by (simp add: py_return_def)

lemma py_raise_apply [simp]: "py_raise e w = (Inl e, w)"
  by (simp add: py_raise_def)

lemma py_lift_apply [simp]: "py_lift r w = (r, w)"
  by (simp add: py_lift_def)

lemma py_bind_Inr: "m w = (Inr a, w1) \<Longrightarrow> py_bind m f w = f a w1"
  by (simp add: py_bind_def)

lemma py_bind_Inl: "m w = (Inl e, w1) \<Longrightarrow> py_bind m f w = (Inl e, w1)"
  by (simp add: py_bind_def)

lemma esp_call_apply [simp]: "esp_call ev out w = (out, w\<lparr>trace := trace w @ [ev]\<rparr>)"
  by (simp add: esp_call_def)

lemma unit_out_simps [simp]: "unit_out None = Inr ()" "unit_out (Some e) = Inl e"
  by (simp_all add: unit_out_def)

lemma listener_apply [simp]:
  "stop_receive w = (Inr (), w\<lparr>receiving := False\<rparr>)"
  "start_receive w = (Inr (), w\<lparr>receiving := True\<rparr>)"
  "get_settings w = (Inr (port_settings w), w)"
  "apply_settings s w = (Inr (), w\<lparr>port_settings := s\<rparr>)"
  by (simp_all add: stop_receive_def start_receive_def get_settings_def apply_settings_def)

lemma update_file_apply [simp]:
  "update_file f g w = (Inr (), w\<lparr>files := (files w)[f := g (files w ! f)]\<rparr>)"
  by (simp add: update_file_def)

subsection \<open>Strings and the invalid-port pattern\<close>

lemma str_contains_iff: "str_contains sub s \<longleftrightarrow> (\<exists>u v. s = u @ sub @ v)"
proof (induction s)
  case Nil
  then show ?case by auto
next
  case (Cons c cs)
  show ?case
  proof
    assume "str_contains sub (c # cs)"
    then consider "prefix sub (c # cs)" | "str_contains sub cs" by auto
    then show "\<exists>u v. c # cs = u @ sub @ v"
    proof cases
      case 1
      then obtain v where "c # cs = sub @ v" by (auto simp: prefix_def)
      then have "c # cs = [] @ sub @ v" by simp
      then show ?thesis by blast
    next
      case 2
      with Cons.IH obtain u v where "cs = u @ sub @ v" by blast
      then have "c # cs = (c # u) @ sub @ v" by simp
      then show ?thesis by blast
    qed
  next
    assume "\<exists>u v. c # cs = u @ sub @ v"
    then obtain u v where uv: "c # cs = u @ sub @ v" by blast
    show "str_contains sub (c # cs)"
    proof (cases u)
      case Nil
      with uv have "prefix sub (c # cs)" by (simp add: prefix_def)
      then show ?thesis by simp
    next
      case (Cons d u')
      with uv have "cs = u' @ sub @ v" by simp
      with Cons.IH have "str_contains sub cs" by blast
      then show ?thesis by simp
    qed
  qed
qed

lemma INVALID_PORT_PATTERN_search_iff:
  "INVALID_PORT_PATTERN_search x \<longleftrightarrow>
     (\<exists>u v. x = u @ ''AMA'' @ v) \<or> (\<exists>u v. x = u @ ''Bluetooth'' @ v)"
  unfolding INVALID_PORT_PATTERN_search_def str_contains_iff ..

subsection \<open>Port resolver\<close>

text \<open>
  C8. With no hint (the variable absent, or empty, which the source treats alike) the
  resolver returns the enumerated list with exactly the ports removed whose name contains
  \<^verbatim>\<open>AMA\<close> or \<^verbatim>\<open>Bluetooth\<close>; the remaining ports keep their order and multiplicity.
\<close>

theorem list_available_ports_no_hint:
  fixes ports :: "string list" and platform :: string
  defines "valid \<equiv> (\<lambda>x. \<not> ((\<exists>u v. x = u @ ''AMA'' @ v) \<or> (\<exists>u v. x = u @ ''Bluetooth'' @ v)))"
  shows "list_available_ports ports None platform = filter valid ports
       \<and> list_available_ports ports (Some []) platform = filter valid ports
       \<and> set (list_available_ports ports None platform) = {x \<in> set ports. valid x}
       \<and> subseq (list_available_ports ports None platform) ports"
proof -
  have eq: "(\<lambda>x. \<not> INVALID_PORT_PATTERN_search x) = valid"
    unfolding valid_def INVALID_PORT_PATTERN_search_iff ..
  have "list_available_ports ports None platform = filter valid ports"
    and "list_available_ports ports (Some []) platform = filter valid ports"
    by (simp_all add: list_available_ports_def eq)
  then show ?thesis by simp
qed

theorem list_available_ports_no_hint_witness:
  "list_available_ports
     [''/dev/ttyUSB0'', ''/dev/ttyAMA0'', ''/dev/tty.Bluetooth-Incoming-Port'', ''/dev/ttyUSB1'']
     None ''linux''
   = [''/dev/ttyUSB0'', ''/dev/ttyUSB1'']"
proof -
  have a: "\<not> INVALID_PORT_PATTERN_search ''/dev/ttyUSB0''"
    and b: "INVALID_PORT_PATTERN_search ''/dev/ttyAMA0''"
    and c: "INVALID_PORT_PATTERN_search ''/dev/tty.Bluetooth-Incoming-Port''"
    and d: "\<not> INVALID_PORT_PATTERN_search ''/dev/ttyUSB1''"
    by (simp_all add: INVALID_PORT_PATTERN_search_def)
  show ?thesis
    using list_available_ports_no_hint
      [of "[''/dev/ttyUSB0'', ''/dev/ttyAMA0'', ''/dev/tty.Bluetooth-Incoming-Port'', ''/dev/ttyUSB1'']"
          "''linux''"]
      a b c d
    by (simp add: INVALID_PORT_PATTERN_search_iff)
qed

text \<open>
  C9. With a (non-empty) hint that is one of the enumerated ports, the resolver returns
  the hint followed by the list without the hint's first occurrence: the hint is first,
  the result is a permutation of the whole unfiltered list, it has no duplicate when the
  enumeration has none, and the other ports keep their relative order.
\<close>

theorem list_available_ports_hint:
  assumes "port_hint \<in> set ports" and "port_hint \<noteq> []"
  shows "list_available_ports ports (Some port_hint) platform = port_hint # remove1 port_hint ports
       \<and> hd (list_available_ports ports (Some port_hint) platform) = port_hint
       \<and> mset (list_available_ports ports (Some port_hint) platform) = mset ports
       \<and> (distinct ports \<longrightarrow> distinct (list_available_ports ports (Some port_hint) platform))
       \<and> filter (\<lambda>x. x \<noteq> port_hint) (list_available_ports ports (Some port_hint) platform)
           = filter (\<lambda>x. x \<noteq> port_hint) ports"
proof -
  have r: "list_available_ports ports (Some port_hint) platform = port_hint # remove1 port_hint ports"
    using assms by (simp add: list_available_ports_def)
  have m: "mset (port_hint # remove1 port_hint ports) = mset ports"
    using assms(1) by simp
  have f: "filter (\<lambda>x. x \<noteq> port_hint) (remove1 port_hint ports) = filter (\<lambda>x. x \<noteq> port_hint) ports"
    by (induction ports) auto
  have d: "distinct ports \<Longrightarrow> distinct (port_hint # remove1 port_hint ports)"
    by simp
  show ?thesis
    unfolding r using m f d by simp
qed

theorem list_available_ports_hint_witness:
  "list_available_ports [''/dev/ttyAMA0'', ''/dev/ttyUSB0'', ''/dev/ttyUSB1''] (Some ''/dev/ttyUSB1'') ''linux''
     = [''/dev/ttyUSB1'', ''/dev/ttyAMA0'', ''/dev/ttyUSB0'']
   \<and> mset [''/dev/ttyUSB1'', ''/dev/ttyAMA0'', ''/dev/ttyUSB0'']
     = mset [''/dev/ttyAMA0'', ''/dev/ttyUSB0'', ''/dev/ttyUSB1'']"
  using list_available_ports_hint
    [of "''/dev/ttyUSB1''" "[''/dev/ttyAMA0'', ''/dev/ttyUSB0'', ''/dev/ttyUSB1'']" "''linux''"]
  by simp

subsection \<open>Session wrapper\<close>

text \<open>The world in which the wrapped function starts when the session is set up.\<close>

lemma uses_esptool_setup_ok:
  assumes "rom_init_out env = None" "connect_out env = None" "run_stub_out env = None"
  shows "uses_esptool env func w =
     (case func (w\<lparr>receiving := False,
                    trace := trace w @ [ESP32ROM_init, Connect (Some ''hard_reset''), RunStub]\<rparr>) of
        (Inl e, w') \<Rightarrow> (Inl e, w')
      | (Inr ret, w') \<Rightarrow> (Inr ret, w'\<lparr>port_settings := port_settings w, receiving := True\<rparr>))"
  using assms by (simp add: uses_esptool_def py_bind_def split: prod.splits sum.splits)

text \<open>
  C1 (as amended). When the construction of the ROM object, the connect and the stub
  load succeed and the wrapped operation returns, the handler returns the operation's
  value with the listener running and the line settings of the entry back in place,
  whatever the operation did to them.
\<close>

theorem uses_esptool_restores_on_success:
  assumes "rom_init_out env = None" and "connect_out env = None" and "run_stub_out env = None"
    and "func (w\<lparr>receiving := False,
                  trace := trace w @ [ESP32ROM_init, Connect (Some ''hard_reset''), RunStub]\<rparr>)
           = (Inr ret, w')"
  shows "uses_esptool env func w = (Inr ret, w'\<lparr>port_settings := port_settings w, receiving := True\<rparr>)
       \<and> receiving (snd (uses_esptool env func w))
       \<and> port_settings (snd (uses_esptool env func w)) = port_settings w"
  using assms by (simp add: uses_esptool_setup_ok)

theorem uses_esptool_restores_on_success_witness:
  "fst (reset env0 w0) = Inr ()
   \<and> receiving (snd (reset env0 w0))
   \<and> port_settings (snd (reset env0 w0)) = port_settings w0"
  using uses_esptool_restores_on_success [of env0 "reset_func env0" w0 "()"
      "w0\<lparr>receiving := False,
          trace := trace w0 @ [ESP32ROM_init, Connect (Some ''hard_reset''), RunStub, HardReset]\<rparr>"]
  by (simp add: reset_def reset_func_def env0_def w0_def)

subsection \<open>Speed negotiation\<close>

lemma baud_attempts_append [simp]:
  "baud_attempts (xs @ ys) = baud_attempts xs @ baud_attempts ys"
  by (induction xs rule: baud_attempts.induct) simp_all

lemma close_files_apply: "close_files plan w = (Inr (), w\<lparr>files := closed_by plan (files w)\<rparr>)"
proof (induction plan arbitrary: w)
  case Nil
  show ?case by simp
next
  case (Cons p plan)
  obtain offs f where p: "p = (offs, f)" by (cases p)
  have "file_close f w = (Inr (), w\<lparr>files := (files w)[f := (files w ! f)\<lparr>closes := Suc (closes (files w ! f))\<rparr>]\<rparr>)"
    by (simp add: file_close_def)
  then show ?case
    unfolding p close_files.simps by (simp add: py_bind_Inr Cons.IH)
qed

lemma close_files_fst [simp]: "fst (close_files plan w) = Inr ()"
  by (simp add: close_files_apply)

lemma close_files_keeps [simp]:
  "trace (snd (close_files plan w)) = trace w"
  "receiving (snd (close_files plan w)) = receiving w"
  "port_settings (snd (close_files plan w)) = port_settings w"
  "written (snd (close_files plan w)) = written w"
  by (simp_all add: close_files_apply)

lemma try_finally_close_files:
  "try_finally body (close_files plan) w =
     (fst (body w), snd (close_files plan (snd (body w))))"
proof -
  obtain r w1 where b: "body w = (r, w1)" by (cases "body w")
  obtain u w2 where c: "close_files plan w1 = (u, w2)" by (cases "close_files plan w1")
  have "u = Inr ()" using close_files_fst [of plan w1] c by simp
  with b c show ?thesis by (simp add: try_finally_def)
qed

lemma attempt_fst:
  "fst (py_bind (change_baud env b) (\<lambda>_. write_flash env b args) w) = unit_out (attempt_out env b)"
  by (simp add: py_bind_def change_baud_def write_flash_def attempt_out_def split: option.splits)

lemma attempt_attempts:
  "baud_attempts (trace (snd (py_bind (change_baud env b) (\<lambda>_. write_flash env b args) w)))
     = baud_attempts (trace w) @ [b]"
  by (simp add: py_bind_def change_baud_def write_flash_def split: option.splits)

lemma try_baud_rates_Cons:
  "try_baud_rates env args (b # rest) w =
     (let r = py_bind (change_baud env b) (\<lambda>_. write_flash env b args) w in
      case attempt_out env b of
        None \<Rightarrow> (Inr (), snd r)
      | Some e \<Rightarrow> if isinstance_RuntimeError e then try_baud_rates env args rest (snd r)
                  else (Inl e, snd r))"
proof -
  obtain x w1 where r: "py_bind (change_baud env b) (\<lambda>_. write_flash env b args) w = (x, w1)"
    by (cases "py_bind (change_baud env b) (\<lambda>_. write_flash env b args) w")
  have "x = unit_out (attempt_out env b)" using attempt_fst [of env b args w] r by simp
  then show ?thesis using r
    by (cases "attempt_out env b") (simp_all add: try_except_RuntimeError_def)
qed

lemma try_baud_rates_two:
  fixes env args w b1 b2
  defines "r1 \<equiv> py_bind (change_baud env b1) (\<lambda>_. write_flash env b1 args) w"
  defines "r2 \<equiv> py_bind (change_baud env b2) (\<lambda>_. write_flash env b2 args) (snd r1)"
  shows "try_baud_rates env args [b1, b2] w =
     (case attempt_out env b1 of
        None \<Rightarrow> (Inr (), snd r1)
      | Some e1 \<Rightarrow>
          if \<not> isinstance_RuntimeError e1 then (Inl e1, snd r1)
          else (case attempt_out env b2 of
                  None \<Rightarrow> (Inr (), snd r2)
                | Some e2 \<Rightarrow> if isinstance_RuntimeError e2 then (Inl IDFToolError, snd r2)
                             else (Inl e2, snd r2)))"
  unfolding r1_def r2_def
  by (simp add: try_baud_rates_Cons Let_def del: try_baud_rates.simps(2) split: option.splits)

text \<open>
  C3. The transfer of lines 147 to 159 asks for 921600 baud first. When that attempt
  answers normally the operation succeeds after one attempt. When it raises a
  \<^verbatim>\<open>RuntimeError\<close>, 115200 baud is tried once: the operation succeeds if that attempt
  answers normally and raises \<^verbatim>\<open>IDFToolError\<close> if it raises a \<^verbatim>\<open>RuntimeError\<close> too.
  In every run the rates asked for are 921600 alone or 921600 then 115200: there is no
  third attempt.
\<close>

theorem flash_speed_negotiation:
  fixes env flash_args w
  defines "r \<equiv> flash_and_close env flash_args w"
  defines "tried \<equiv> baud_attempts (trace (snd r))"
  defines "before \<equiv> baud_attempts (trace w)"
  shows "(attempt_out env 921600 = None \<longrightarrow> fst r = Inr () \<and> tried = before @ [921600])
       \<and> (\<forall>e1. attempt_out env 921600 = Some e1 \<and> isinstance_RuntimeError e1
               \<and> attempt_out env 115200 = None
             \<longrightarrow> fst r = Inr () \<and> tried = before @ [921600, 115200])
       \<and> (\<forall>e1 e2. attempt_out env 921600 = Some e1 \<and> isinstance_RuntimeError e1
               \<and> attempt_out env 115200 = Some e2 \<and> isinstance_RuntimeError e2
             \<longrightarrow> fst r = Inl IDFToolError \<and> tried = before @ [921600, 115200])
       \<and> (tried = before @ [921600] \<or> tried = before @ [921600, 115200])"
proof -
  let ?loop = "try_baud_rates env flash_args [921600, 115200] w"
  have r: "fst r = fst ?loop" "tried = baud_attempts (trace (snd ?loop))"
    by (simp_all add: r_def tried_def flash_and_close_def try_finally_close_files)
  note two = try_baud_rates_two [of env flash_args 921600 115200 w]
  have a: "attempt_out env 921600 = None \<Longrightarrow> fst ?loop = Inr ()
             \<and> baud_attempts (trace (snd ?loop)) = before @ [921600]"
    by (simp add: two attempt_attempts before_def del: try_baud_rates.simps)
  have b: "attempt_out env 921600 = Some e1 \<Longrightarrow> isinstance_RuntimeError e1
             \<Longrightarrow> attempt_out env 115200 = None
             \<Longrightarrow> fst ?loop = Inr () \<and> baud_attempts (trace (snd ?loop)) = before @ [921600, 115200]"
    for e1
    by (simp add: two attempt_attempts before_def del: try_baud_rates.simps)
  have c: "attempt_out env 921600 = Some e1 \<Longrightarrow> isinstance_RuntimeError e1
             \<Longrightarrow> attempt_out env 115200 = Some e2 \<Longrightarrow> isinstance_RuntimeError e2
             \<Longrightarrow> fst ?loop = Inl IDFToolError
               \<and> baud_attempts (trace (snd ?loop)) = before @ [921600, 115200]"
    for e1 e2
    by (simp add: two attempt_attempts before_def del: try_baud_rates.simps)
  have d: "baud_attempts (trace (snd ?loop)) = before @ [921600]
         \<or> baud_attempts (trace (snd ?loop)) = before @ [921600, 115200]"
  proof (cases "attempt_out env 921600")
    case None
    then show ?thesis using a by simp
  next
    case (Some e1)
    show ?thesis
    proof (cases "isinstance_RuntimeError e1")
      case False
      with Some show ?thesis
        by (simp add: two attempt_attempts before_def del: try_baud_rates.simps)
    next
      case True
      show ?thesis
      proof (cases "attempt_out env 115200")
        case None
        with Some True b show ?thesis by simp
      next
        case (Some e2)
        with \<open>attempt_out env 921600 = Some e1\<close> True show ?thesis
          by (simp add: two attempt_attempts before_def del: try_baud_rates.simps)
      qed
    qed
  qed
  have "attempt_out env 921600 = None \<longrightarrow> fst r = Inr () \<and> tried = before @ [921600]"
    using a by (simp add: r)
  moreover have "\<forall>e1. attempt_out env 921600 = Some e1 \<and> isinstance_RuntimeError e1
               \<and> attempt_out env 115200 = None
             \<longrightarrow> fst r = Inr () \<and> tried = before @ [921600, 115200]"
    using b by (simp add: r)
  moreover have "\<forall>e1 e2. attempt_out env 921600 = Some e1 \<and> isinstance_RuntimeError e1
               \<and> attempt_out env 115200 = Some e2 \<and> isinstance_RuntimeError e2
             \<longrightarrow> fst r = Inl IDFToolError \<and> tried = before @ [921600, 115200]"
    using c by (simp add: r)
  moreover have "tried = before @ [921600] \<or> tried = before @ [921600, 115200]"
    using d by (simp add: r)
  ultimately show ?thesis by (intro conjI)
qed

theorem flash_speed_negotiation_witness:
  "attempt_out env_retry 921600 = Some FatalError \<and> isinstance_RuntimeError FatalError
   \<and> attempt_out env_retry 115200 = None
   \<and> fst (flash_and_close env_retry args0 w0) = Inr ()
   \<and> baud_attempts (trace (snd (flash_and_close env_retry args0 w0))) = [921600, 115200]
   \<and> attempt_out env_no_speed 921600 = Some FatalError
   \<and> attempt_out env_no_speed 115200 = Some FatalError
   \<and> fst (flash_and_close env_no_speed args0 w0) = Inl IDFToolError
   \<and> baud_attempts (trace (snd (flash_and_close env_no_speed args0 w0))) = [921600, 115200]"
  using flash_speed_negotiation [of env_retry args0 w0]
    flash_speed_negotiation [of env_no_speed args0 w0]
  by (simp add: attempt_out_def env_retry_def env_no_speed_def env0_def w0_def)

subsection \<open>Operations that raise inside the session\<close>

text \<open>
  The handler has no cleanup region. \<^verbatim>\<open>erase_partition\<close> always raises inside the
  session, and the listener that ran before the call is left stopped; a transfer that
  fails with an I/O error after the switch to 921600 baud leaves the listener stopped and
  the line at 921600 baud, not at the 115200 baud of the entry.
\<close>

lemma start_app_io_error:
  "fst (start_app env_io_error app0 False w0) = Inl OSError
   \<and> \<not> receiving (snd (start_app env_io_error app0 False w0))
   \<and> port_settings (snd (start_app env_io_error app0 False w0)) = 921600
   \<and> port_settings w0 = 115200"
  by (simp add: start_app_def uses_esptool_setup_ok env_io_error_def env0_def w0_def app0_def
      start_app_func_def build_flash_files_def py_bind_def open_rb_def new_file_def
      make_flash_args_def lookup_setting_def flash_and_close_def try_finally_close_files
      try_baud_rates_two attempt_out_def change_baud_def write_flash_def file_close_def
      del: try_baud_rates.simps)

theorem uses_esptool_cleanup_counterexample:
  "receiving w0
   \<and> fst (erase_partition env0 app0 ''nvs'' w0) = Inl NotImplementedError
   \<and> \<not> receiving (snd (erase_partition env0 app0 ''nvs'' w0))
   \<and> fst (start_app env_io_error app0 False w0) = Inl OSError
   \<and> \<not> receiving (snd (start_app env_io_error app0 False w0))
   \<and> port_settings (snd (start_app env_io_error app0 False w0)) \<noteq> port_settings w0"
  using start_app_io_error
  by (simp add: erase_partition_def erase_partition_func_def uses_esptool_setup_ok env0_def w0_def)

subsection \<open>Flash dump\<close>

lemma os_path_relpath_nonempty:
  "path \<noteq> [] \<Longrightarrow> \<exists>r. os_path_relpath c path start = Inr r"
  by (simp add: os_path_relpath_def Let_def split: list.splits)

lemma dump_flush_func_invalid:
  assumes "kwargs ''partition'' = None" and "kwargs ''address'' = None \<or> kwargs ''size'' = None"
    and "output_file \<noteq> []"
  shows "dump_flush_func env a output_file kwargs w = (Inl IDFToolError, w)"
proof -
  obtain r where r: "os_path_relpath (cwd env) output_file (log_folder a) = Inr r"
    using os_path_relpath_nonempty [OF assms(3)] by blast
  show ?thesis
    using assms(1,2) r
    by (auto simp: dump_flush_func_def py_bind_def split: option.splits)
qed

text \<open>
  C2 (as amended). A call with a non-empty output path that gives neither
  \<^verbatim>\<open>partition\<close> nor both of \<^verbatim>\<open>address\<close> and \<^verbatim>\<open>size\<close> raises \<^verbatim>\<open>IDFToolError\<close>
  from the body with no device I/O of the body's own: nothing is read from flash and no
  file is written. The session wrapper has run before the body: when its ROM object,
  connect and stub load succeed, these three calls are the whole device traffic of the
  failed call, and the listener stays stopped.
\<close>

theorem dump_flush_invalid_request:
  assumes "kwargs ''partition'' = None" and "kwargs ''address'' = None \<or> kwargs ''size'' = None"
    and "output_file \<noteq> []"
  shows "dump_flush_func env a output_file kwargs w = (Inl IDFToolError, w)
       \<and> (rom_init_out env = None \<and> connect_out env = None \<and> run_stub_out env = None \<longrightarrow>
            dump_flush env a output_file kwargs w =
              (Inl IDFToolError,
               w\<lparr>receiving := False,
                 trace := trace w @ [ESP32ROM_init, Connect (Some ''hard_reset''), RunStub]\<rparr>))"
  by (simp add: dump_flush_def uses_esptool_setup_ok dump_flush_func_invalid [OF assms])

theorem dump_flush_invalid_request_witness:
  "Map.empty ''partition'' = (None :: pyval option)
   \<and> dump_flush_func env0 app0 ''dump.bin'' Map.empty w0 = (Inl IDFToolError, w0)
   \<and> fst (dump_flush env0 app0 ''dump.bin'' Map.empty w0) = Inl IDFToolError
   \<and> written (snd (dump_flush env0 app0 ''dump.bin'' Map.empty w0)) = []"
  using dump_flush_invalid_request [of Map.empty "''dump.bin''" env0 app0 w0]
  by (simp add: env0_def w0_def)

text \<open>
  The call with no keyword at all fails with \<^verbatim>\<open>IDFToolError\<close> only after the connect
  and the stub load were made.
\<close>

theorem dump_flush_invalid_request_counterexample:
  "fst (dump_flush env0 app0 ''dump.bin'' Map.empty w0) = Inl IDFToolError
   \<and> trace w0 = []
   \<and> trace (snd (dump_flush env0 app0 ''dump.bin'' Map.empty w0))
       = [ESP32ROM_init, Connect (Some ''hard_reset''), RunStub]"
  by (simp add: dump_flush_def uses_esptool_setup_ok dump_flush_func_invalid env0_def w0_def)

lemma dump_flush_func_partition:
  assumes "kwargs ''partition'' = Some key"
  shows "dump_flush_func env a output_file kwargs =
     py_bind (if \<not> os_path_isabs output_file
              then py_lift (os_path_relpath (cwd env) output_file (log_folder a))
              else py_return output_file) (\<lambda>output_file'.
     py_bind (lookup_partition a key) (\<lambda>part.
     py_bind (esp_call (ReadFlash (PStr (p_offset part)) (PInt (p_size part)))
                (read_flash_out env (PStr (p_offset part)) (PInt (p_size part)))) (\<lambda>content.
     open_wb_write env output_file' content)))"
  using assms
  by (auto simp: dump_flush_func_def py_bind_def fun_eq_iff split: prod.splits sum.splits)

text \<open>
  C10. When \<^verbatim>\<open>partition\<close> is among the keywords, the call behaves as the call with
  that keyword alone: \<^verbatim>\<open>address\<close> and \<^verbatim>\<open>size\<close> are never looked at. For a known
  partition and a non-empty output path the one flash read is made with the offset and
  the size the partition table declares.
\<close>

theorem dump_flush_partition_precedence:
  assumes "kwargs ''partition'' = Some key"
  shows "dump_flush env a output_file kwargs w = dump_flush env a output_file [''partition'' \<mapsto> key] w
       \<and> (\<forall>name part. key = PStr name \<and> partition_table a name = Some part \<and> output_file \<noteq> []
            \<longrightarrow> trace (snd (dump_flush_func env a output_file kwargs w))
                = trace w @ [ReadFlash (PStr (p_offset part)) (PInt (p_size part))])"
proof -
  have eq: "dump_flush_func env a output_file kwargs
          = dump_flush_func env a output_file [''partition'' \<mapsto> key]"
    using assms by (simp add: dump_flush_func_partition)
  have tr: "trace (snd (dump_flush_func env a output_file kwargs w))
                = trace w @ [ReadFlash (PStr (p_offset part)) (PInt (p_size part))]"
    if k: "key = PStr name" and p: "partition_table a name = Some part"
      and nonempty: "output_file \<noteq> []"
    for name part
  proof -
    obtain r where r: "os_path_relpath (cwd env) output_file (log_folder a) = Inr r"
      using os_path_relpath_nonempty [OF nonempty] by blast
    show ?thesis
      using k p r
      by (simp add: dump_flush_func_partition [of kwargs key, OF assms] py_bind_def
          lookup_partition_def
          open_wb_write_def split: sum.splits option.splits)
  qed
  show ?thesis
    using tr by (simp add: dump_flush_def eq)
qed

theorem dump_flush_partition_precedence_witness:
  "kwargs_both ''partition'' = Some (PStr ''nvs'')
   \<and> kwargs_both ''address'' = Some (PInt 4096)
   \<and> kwargs_both ''size'' = Some (PInt 16)
   \<and> trace (snd (dump_flush_func env0 app0 ''/tmp/dump.bin'' kwargs_both w0))
       = [ReadFlash (PStr ''0x9000'') (PInt 4)]"
  using dump_flush_partition_precedence
    [of kwargs_both "PStr ''nvs''" env0 app0 "''/tmp/dump.bin''" w0]
  by (simp add: kwargs_both_def app0_def w0_def)

lemma split_sep_example: "split_sep ''/home/u/dump.bin'' = [[], ''home'', ''u'', ''dump.bin'']"
  by simp

lemma abspath_dump: "os_path_abspath ''/home/u'' ''dump.bin'' = ''/home/u/dump.bin''"
  by (simp add: os_path_abspath_def os_path_normpath_def os_path_join_def
      os_path_isabs_def join_step_def normpath_step_def Let_def)

lemma abspath_logs: "os_path_abspath ''/home/u'' ''/logs'' = ''/logs''"
  by (simp add: os_path_abspath_def os_path_normpath_def os_path_join_def
      os_path_isabs_def join_step_def normpath_step_def Let_def)

lemma relpath_dump: "os_path_relpath ''/home/u'' ''dump.bin'' ''/logs'' = Inr ''../home/u/dump.bin''"
  by (simp add: os_path_relpath_def abspath_dump abspath_logs os_path_join_def join_step_def Let_def)

lemma abspath_written: "os_path_abspath ''/home/u'' ''../home/u/dump.bin'' = ''/home/home/u/dump.bin''"
  by (simp add: os_path_abspath_def os_path_normpath_def os_path_join_def
      os_path_isabs_def join_step_def normpath_step_def Let_def)

lemma join_logs_dump: "os_path_join ''/logs'' [''dump.bin''] = ''/logs/dump.bin''"
  by (simp add: os_path_join_def join_step_def)

text \<open>An absolute output path is handed to \<^verbatim>\<open>open\<close> as it is.\<close>

lemma dump_flush_func_absolute_path:
  assumes "os_path_isabs output_file"
    and "kwargs ''partition'' = Some (PStr name)" and "partition_table a name = Some part"
    and "read_flash_out env (PStr (p_offset part)) (PInt (p_size part)) = Inr bytes"
    and "open_wb_out env output_file = None"
  shows "fst (dump_flush_func env a output_file kwargs w) = Inr ()
       \<and> written (snd (dump_flush_func env a output_file kwargs w))
           = written w @ [(output_file, bytes)]"
  using assms
  by (simp add: dump_flush_func_partition [of kwargs "PStr name"] py_bind_def
      lookup_partition_def open_wb_write_def)

text \<open>
  C4, at a failing input. With the working directory \<^verbatim>\<open>/home/u\<close> and the log folder
  \<^verbatim>\<open>/logs\<close>, the relative output path \<^verbatim>\<open>dump.bin\<close> is turned by \<^verbatim>\<open>os.path.relpath\<close>
  into \<^verbatim>\<open>../home/u/dump.bin\<close>, which \<^verbatim>\<open>open\<close> resolves against the working directory
  to \<^verbatim>\<open>/home/home/u/dump.bin\<close>; the log folder joined with the path is
  \<^verbatim>\<open>/logs/dump.bin\<close>.
\<close>

theorem dump_flush_relative_path_failing_input:
  "written (snd (dump_flush env0 app0 ''dump.bin'' [''partition'' \<mapsto> PStr ''nvs''] w0))
     = [(''../home/u/dump.bin'', [7, 8])]
   \<and> os_path_abspath (cwd env0) ''../home/u/dump.bin'' = ''/home/home/u/dump.bin''
   \<and> os_path_join (log_folder app0) [''dump.bin''] = ''/logs/dump.bin''"
  by (simp add: dump_flush_def uses_esptool_setup_ok dump_flush_func_def py_bind_def
      lookup_partition_def open_wb_write_def os_path_isabs_def relpath_dump abspath_written join_logs_dump
      env0_def w0_def app0_def)

subsection \<open>Building the flash plan\<close>

lemma open_rb_Inr:
  "open_rb env path w = (Inr f, w1) \<longleftrightarrow>
     (\<exists>bs. fs env path = Some bs \<and> f = length (files w)
        \<and> w1 = w\<lparr>files := files w @ [\<lparr>origin = Some path, content = bs, position = 0, closes = 0\<rparr>]\<rparr>)"
  by (auto simp: open_rb_def new_file_def split: option.splits)

lemma open_flash_files_offsets:
  "open_flash_files env segs w = (Inr opened, w1) \<Longrightarrow> map fst opened = map fst segs"
proof (induction segs arbitrary: w opened w1)
  case Nil
  then show ?case by simp
next
  case (Cons seg segs)
  obtain offs path where seg: "seg = (offs, path)" by (cases seg)
  from Cons.prems obtain f wa rest where
    o: "open_rb env path w = (Inr f, wa)"
    and r: "open_flash_files env segs wa = (Inr rest, w1)"
    and opened: "opened = (offs, f) # rest"
    unfolding seg by (auto simp: py_bind_def split: prod.splits sum.splits)
  from Cons.IH [OF r] opened show ?case by (simp add: seg)
qed

lemma append_nvs_ok:
  assumes "partition_table a ''nvs'' = Some nvs"
    and "tempfile_out env = None"
    and "int_base0 env (p_offset nvs) = Inr addr"
  shows "append_nvs env a opened w1 =
     (Inr (opened @ [(addr, length (files w1))]),
      w1\<lparr>files := files w1 @ [\<lparr>origin = None,
                                  content = replicate (nat (p_size nvs)) 0xFF,
                                  position = 0, closes = 0\<rparr>]\<rparr>)"
  using assms
  by (simp add: append_nvs_def TemporaryFile_def new_file_def file_write_def file_seek_def
      py_bind_def Let_def)

lemma byte_all_ones: "(0xFF :: byte) = - 1"
  by simp

text \<open>
  C5. When the image files can be opened, the \<^verbatim>\<open>nvs\<close> partition is declared with
  offset string \<open>p_offset nvs\<close> (denoting \<open>addr\<close>) and a size \<open>p_size nvs\<close> that is not
  negative, and the temporary file can be created, then the plan built with
  \<^verbatim>\<open>erase_nvs\<close> is the plan built without it (one entry per image segment, at the
  segment's offset) followed by exactly one more entry: at \<open>addr\<close>, a new temporary file
  rewound to its start that holds exactly \<open>p_size nvs\<close> bytes, each of them \<^verbatim>\<open>0xFF\<close>, the
  byte with all bits set.
\<close>

theorem erase_nvs_plan_entry:
  fixes env a w
  defines "nvs_bytes \<equiv> (\<lambda>nvs. replicate (nat (p_size nvs)) (0xFF :: byte))"
  assumes "open_flash_files env (flash_files a) w = (Inr opened, w1)"
    and "partition_table a ''nvs'' = Some nvs"
    and "tempfile_out env = None"
    and "int_base0 env (p_offset nvs) = Inr addr"
    and "0 \<le> p_size nvs"
  shows "build_flash_files env a False w = (Inr opened, w1)
       \<and> map fst opened = map fst (flash_files a)
       \<and> build_flash_files env a True w =
           (Inr (opened @ [(addr, length (files w1))]),
            w1\<lparr>files := files w1 @ [\<lparr>origin = None, content = nvs_bytes nvs,
                                        position = 0, closes = 0\<rparr>]\<rparr>)
       \<and> int (length (nvs_bytes nvs)) = p_size nvs
       \<and> (\<forall>b \<in> set (nvs_bytes nvs). b = 0xFF \<and> b = - 1)"
  using assms(2,6) open_flash_files_offsets [OF assms(2)] append_nvs_ok [OF assms(3,4,5)]
  by (simp add: build_flash_files_def py_bind_def nvs_bytes_def)

lemma nvs_fill_example: "replicate 4 (0xFF :: byte) = [0xFF, 0xFF, 0xFF, 0xFF]"
  by (simp add: numeral_eq_Suc)

lemma open_app0:
  "open_flash_files env0 (flash_files app0) w0 =
     (Inr [(4096, 0)],
      w0\<lparr>files := [\<lparr>origin = Some ''app.bin'', content = [1, 2, 3], position = 0, closes = 0\<rparr>]\<rparr>)"
  by (simp add: env0_def app0_def w0_def py_bind_def open_rb_def new_file_def)

theorem erase_nvs_plan_entry_witness:
  "fst (build_flash_files env0 app0 False w0) = Inr [(4096, 0)]
   \<and> fst (build_flash_files env0 app0 True w0) = Inr [(4096, 0), (36864, 1)]
   \<and> map content (files (snd (build_flash_files env0 app0 True w0)))
       = [[1, 2, 3], [0xFF, 0xFF, 0xFF, 0xFF]]"
proof -
  have nvs: "partition_table app0 ''nvs'' = Some \<lparr>p_offset = ''0x9000'', p_size = 4\<rparr>"
    by (simp add: app0_def)
  have tmp: "tempfile_out env0 = None"
    by (simp add: env0_def)
  have addr: "int_base0 env0 (p_offset \<lparr>p_offset = ''0x9000'', p_size = 4\<rparr>) = Inr 36864"
    by (simp add: env0_def)
  have sz: "0 \<le> p_size \<lparr>p_offset = ''0x9000'', p_size = 4\<rparr>"
    by simp
  show ?thesis
    using erase_nvs_plan_entry [OF open_app0 nvs tmp addr sz]
    by (simp add: nvs_fill_example w0_def)
qed

subsection \<open>Opening the image files\<close>


subsection \<open>Closing the sources\<close>

lemma closed_by_length [simp]: "length (closed_by plan fl) = length fl"
  by (induction plan fl rule: closed_by.induct) simp_all

lemma closed_by_closes:
  "h < length fl \<Longrightarrow>
     closes (closed_by plan fl ! h) = closes (fl ! h) + count_list (map snd plan) h"
proof (induction plan fl rule: closed_by.induct)
  case (1 fl)
  then show ?case by simp
next
  case (2 offs f rest fl)
  then show ?case by (simp add: nth_list_update)
qed

lemma count_list_upt:
  "count_list [m ..< n] k = (if m \<le> k \<and> k < n then 1 else 0)"
  by (induction n) auto

lemma attempt_files:
  "files (snd (py_bind (change_baud env b) (\<lambda>_. write_flash env b args) w)) = files w"
  by (simp add: py_bind_def change_baud_def write_flash_def split: option.splits)

lemma try_baud_rates_files: "files (snd (try_baud_rates env args bs w)) = files w"
proof (induction bs arbitrary: w)
  case Nil
  show ?case by simp
next
  case (Cons b bs)
  show ?case
    by (simp add: try_baud_rates_Cons Let_def Cons.IH attempt_files
        del: try_baud_rates.simps split: option.splits)
qed

lemma flash_and_close_files:
  "files (snd (flash_and_close env args w)) = closed_by (addr_filename args) (files w)"
  by (simp add: flash_and_close_def try_finally_close_files close_files_apply
      try_baud_rates_files del: try_baud_rates.simps)

lemma open_flash_files_handles:
  assumes "open_flash_files env segs w = (Inr opened, w1)"
  shows "map snd opened = [length (files w) ..< length (files w1)]
       \<and> length (files w) \<le> length (files w1)
       \<and> (\<forall>h < length (files w1).
            closes (files w1 ! h) = (if h < length (files w) then closes (files w ! h) else 0))"
  using assms
proof (induction segs arbitrary: w opened w1)
  case Nil
  then show ?case by auto
next
  case (Cons seg segs)
  obtain offs path where seg: "seg = (offs, path)" by (cases seg)
  from Cons.prems obtain f wa rest where
    o: "open_rb env path w = (Inr f, wa)"
    and r: "open_flash_files env segs wa = (Inr rest, w1)"
    and opened: "opened = (offs, f) # rest"
    unfolding seg by (auto simp: py_bind_def split: prod.splits sum.splits)
  from o obtain bs where f: "f = length (files w)"
    and wa: "files wa = files w @ [\<lparr>origin = Some path, content = bs, position = 0, closes = 0\<rparr>]"
    by (auto simp: open_rb_Inr)
  note ih = Cons.IH [OF r]
  have len: "length (files w) < length (files w1)"
    using ih wa by simp
  have "map snd opened = length (files w) # [Suc (length (files w)) ..< length (files w1)]"
    using ih opened f wa by simp
  then have m: "map snd opened = [length (files w) ..< length (files w1)]"
    using len by (simp add: upt_conv_Cons)
  have c: "closes (files w1 ! h) = (if h < length (files w) then closes (files w ! h) else 0)"
    if "h < length (files w1)" for h
  proof -
    have "closes (files w1 ! h) = (if h < length (files wa) then closes (files wa ! h) else 0)"
      using ih that by blast
    then show ?thesis
      by (cases "h < length (files w)") (auto simp: wa nth_append)
  qed
  show ?case using m len c by simp
qed

lemma build_flash_files_handles:
  assumes "build_flash_files env a erase_nvs w = (Inr plan, w1)"
  shows "map snd plan = [length (files w) ..< length (files w1)]
       \<and> (\<forall>h < length (files w1).
            closes (files w1 ! h) = (if h < length (files w) then closes (files w ! h) else 0))"
proof -
  from assms obtain opened wa where
    o: "open_flash_files env (flash_files a) w = (Inr opened, wa)"
    and rest: "(if erase_nvs then append_nvs env a opened else py_return opened) wa = (Inr plan, w1)"
    by (auto simp: build_flash_files_def py_bind_def split: prod.splits sum.splits)
  note h = open_flash_files_handles [OF o]
  show ?thesis
  proof (cases erase_nvs)
    case False
    with rest h show ?thesis by simp
  next
    case True
    with rest have an: "append_nvs env a opened wa = (Inr plan, w1)" by simp
    then obtain nvs addr where
      "partition_table a ''nvs'' = Some nvs" "tempfile_out env = None"
      "int_base0 env (p_offset nvs) = Inr addr"
      by (auto simp: append_nvs_def TemporaryFile_def py_bind_def Let_def
          split: option.splits prod.splits sum.splits)
    from append_nvs_ok [OF this, of opened wa] an
    have plan: "plan = opened @ [(addr, length (files wa))]"
      and w1: "files w1 = files wa @ [\<lparr>origin = None, content = replicate (nat (p_size nvs)) 0xFF,
                                         position = 0, closes = 0\<rparr>]"
      by auto
    have "map snd plan = [length (files w) ..< length (files wa)] @ [length (files wa)]"
      using h plan by simp
    then have m: "map snd plan = [length (files w) ..< length (files w1)]"
      using h w1 by simp
    have c: "closes (files w1 ! k) = (if k < length (files w) then closes (files w ! k) else 0)"
      if "k < length (files w1)" for k
    proof (cases "k < length (files wa)")
      case True
      then show ?thesis using h by (simp add: w1 nth_append)
    next
      case False
      with that have "k = length (files wa)" by (simp add: w1)
      then show ?thesis using h by (simp add: w1)
    qed
    show ?thesis using m c by simp
  qed
qed

lemma make_flash_args_Inr:
  "make_flash_args a plan w = (Inr args, w') \<Longrightarrow> w' = w \<and> addr_filename args = plan"
  by (auto simp: make_flash_args_def lookup_setting_def py_bind_def split: option.splits)

text \<open>
  Once the plan and the arguments are built, every source of the plan has had exactly one
  \<^verbatim>\<open>close()\<close> when \<^verbatim>\<open>start_app\<close> is left, whatever the transfer did, and the files
  that existed before are not touched.
\<close>

lemma start_app_func_closes_plan:
  assumes b: "build_flash_files env a erase_nvs w = (Inr plan, w1)"
    and m: "make_flash_args a plan w1 = (Inr args, w2)"
  shows "length (files (snd (start_app_func env a erase_nvs w))) = length (files w1)
       \<and> (\<forall>h < length (files w1).
            closes (files (snd (start_app_func env a erase_nvs w)) ! h)
              = (if h < length (files w) then closes (files w ! h) else 1))"
proof -
  from make_flash_args_Inr [OF m] have w2: "w2 = w1" and af: "addr_filename args = plan" by auto
  have s: "start_app_func env a erase_nvs w = flash_and_close env args w1"
    using b m w2 by (simp add: start_app_func_def py_bind_def)
  note h = build_flash_files_handles [OF b]
  have cnt: "count_list (map snd plan) k = (if length (files w) \<le> k then 1 else 0)"
    if "k < length (files w1)" for k
  proof -
    show ?thesis using h that by (simp add: count_list_upt)
  qed
  show ?thesis
    unfolding s flash_and_close_files af
    using h cnt by (auto simp: closed_by_closes)
qed

subsection \<open>Identity probe\<close>






end
